theory Spec2Isabelle
  imports Complex_Main
begin

section \<open>Bigram augmentation\<close>

text \<open>
  The notebook's first code cell:
  \<^verbatim>\<open>
  def generate_bigrams(x):
      n_grams = list(zip(*[x[i:] for i in range(2)]))
      for n_gram in n_grams:
          x.append(' '.join(n_gram))
      return x
  \<close>
  Tokens are Python strings, a token list is a \<open>string list\<close>, and a tuple produced by
  \<open>zip\<close> is the list of its components. The code only concatenates tokens, so the
  width of a character plays no role.
\<close>

text \<open>\<open>sep.join(parts)\<close> of Python's \<open>str\<close>.\<close>

fun str_join :: "string \<Rightarrow> string list \<Rightarrow> string" where
  "str_join sep [] = []"
| "str_join sep [s] = s"
| "str_join sep (s # t # ts) = s @ sep @ str_join sep (t # ts)"

text \<open>
  \<open>list(zip(*ls))\<close>: the tuples of the heads, as long as every argument still has one;
  \<open>zip()\<close> of no argument is empty.
\<close>

function zip_star :: "'a list list \<Rightarrow> 'a list list" where
  "zip_star ls =
     (if ls = [] \<or> [] \<in> set ls then [] else map hd ls # zip_star (map tl ls))"
  by pat_completeness auto
termination
proof (relation "measure (\<lambda>ls. length (hd ls))")
  show "wf (measure (\<lambda>ls::'a list list. length (hd ls)))"
    by simp
next
  fix ls :: "'a list list"
  assume "\<not> (ls = [] \<or> [] \<in> set ls)"
  then obtain l rest where "ls = l # rest" and "l \<noteq> []"
    by (cases ls) auto
  then show "(map tl ls, ls) \<in> measure (\<lambda>ls. length (hd ls))"
    by simp
qed

declare zip_star.simps [simp del]

text \<open>The slices \<open>[x[i:] for i in range(2)]\<close>.\<close>

definition slices :: "'a list \<Rightarrow> 'a list list" where
  "slices x = map (\<lambda>i. drop i x) [0..<2]"

text \<open>
  The list \<open>x\<close> is passed in and returned updated; the loop appends one joined string per
  tuple of \<open>n_grams\<close>, which was computed from the list before the first append.
\<close>

definition generate_bigrams :: "string list \<Rightarrow> string list" where
  "generate_bigrams x =
     (let n_grams = zip_star (slices x)
      in foldl (\<lambda>x n_gram. x @ [str_join '' '' n_gram]) x n_grams)"

subsection \<open>The same function on a store of list objects\<close>

type_synonym store = "string list list"





section \<open>Vocabulary and vectorization\<close>

text \<open>
  The notebook imports \<open>build_dataset\<close>, \<open>tokenizer\<close> and \<open>vectorize\<close> from the module
  \<open>data_utils\<close>, whose source is not part of the repository snapshot. The definitions of
  this section follow the written specification of these components.
\<close>

datatype error = ZeroDivisionError | RuntimeError | AssertionError

text \<open>
  A vocabulary is a Python dictionary from token to id; the association list keeps the
  order of insertion and \<open>map_of\<close> is the lookup.
\<close>

type_synonym vocabulary = "(string \<times> nat) list"

definition unk_token :: string where
  "unk_token = ''<unk>''"

definition pad_token :: string where
  "pad_token = ''<pad>''"

text \<open>
  Modelled from the spec: the reserved id of the unknown token, which \<open>data_utils\<close>
  would fix. The specification seeds the two reserved tokens first, at fixed ids, in a
  vocabulary whose ids are contiguous from 0; the ids are taken in the order in which it
  lists the tokens.
\<close>

definition unk_id :: nat where
  "unk_id = 0"

text \<open>Modelled from the spec: the reserved id of the padding token, see \<open>unk_id\<close>.\<close>

definition pad_id :: nat where
  "pad_id = 1"

text \<open>
  Modelled from the spec: the start of the vocabulary builder of \<open>data_utils\<close>, the
  two reserved tokens seeded at their ids.
\<close>

definition seed_vocab :: vocabulary where
  "seed_vocab = [(unk_token, unk_id), (pad_token, pad_id)]"

text \<open>
  Modelled from the spec: one step of the vocabulary builder of \<open>data_utils\<close>. A token
  not yet present gets the next id, a token already present keeps its id.
\<close>

definition add_token :: "vocabulary \<Rightarrow> string \<Rightarrow> vocabulary" where
  "add_token v t = (case map_of v t of None \<Rightarrow> v @ [(t, length v)] | Some i \<Rightarrow> v)"

text \<open>
  Modelled from the spec: the vocabulary builder of \<open>data_utils\<close>. It scans the
  tokenized examples in order, token by token, from the seeded vocabulary.
\<close>

definition build_vocab :: "string list list \<Rightarrow> vocabulary" where
  "build_vocab corpus = foldl (foldl add_token) seed_vocab corpus"

text \<open>
  Modelled from the spec: \<open>vectorize\<close> of \<open>data_utils\<close>. A pure mapping from a token
  list to its id list; a token that the vocabulary does not hold is replaced by the
  reserved unknown id.
\<close>

definition vectorize :: "vocabulary \<Rightarrow> string list \<Rightarrow> nat list" where
  "vectorize v tokens = map (\<lambda>t. case map_of v t of None \<Rightarrow> unk_id | Some i \<Rightarrow> i) tokens"

text \<open>
  Modelled from the spec: the datasets that \<open>build_dataset\<close> of \<open>data_utils\<close> returns.
  An example is an id sequence with a binary label, a dataset is a list of examples with
  the vocabulary used to build it. A corpus is given tokenized, one token list and label
  per line of the file.
\<close>

record dataset =
  examples :: "(nat list \<times> bool) list"
  vocab :: vocabulary

type_synonym corpus = "(string list \<times> bool) list"

text \<open>
  Modelled from the spec: the optional bigram augmentation inside \<open>build_dataset\<close> of
  \<open>data_utils\<close>, applied to every example before the vocabulary is built.
\<close>

definition augment :: "bool \<Rightarrow> corpus \<Rightarrow> corpus" where
  "augment bigrams data =
     (if bigrams then map (\<lambda>(toks, label). (generate_bigrams toks, label)) data else data)"

text \<open>
  Modelled from the spec: the vectorizer's part of \<open>build_dataset\<close> of \<open>data_utils\<close>,
  every example mapped to its id sequence, the vocabulary kept with the result.
\<close>

definition make_dataset :: "vocabulary \<Rightarrow> corpus \<Rightarrow> dataset" where
  "make_dataset v data =
     \<lparr>examples = map (\<lambda>(toks, label). (vectorize v toks, label)) data, vocab = v\<rparr>"

text \<open>
  Modelled from the spec: \<open>build_dataset(path, split_ratio, generate_bigrams)\<close> builds the
  vocabulary once from the whole file and then splits; how it chooses the two parts is
  the parameter \<open>split\<close>.
\<close>

definition build_dataset_split ::
  "(corpus \<Rightarrow> corpus \<times> corpus) \<Rightarrow> bool \<Rightarrow> corpus \<Rightarrow> dataset \<times> dataset" where
  "build_dataset_split split bigrams data =
     (let toks = augment bigrams data;
          v = build_vocab (map fst toks);
          (train_part, valid_part) = split toks
      in (make_dataset v train_part, make_dataset v valid_part))"

text \<open>Modelled from the spec: \<open>build_dataset(path, predefined_vocab)\<close> reuses the vocabulary.\<close>

definition build_dataset_predefined :: "vocabulary \<Rightarrow> bool \<Rightarrow> corpus \<Rightarrow> dataset" where
  "build_dataset_predefined v bigrams data = make_dataset v (augment bigrams data)"

text \<open>
  The notebook's cells 3 to 5:
  \<^verbatim>\<open>
  train_dataset, valid_dataset = build_dataset('data/ratings_train.txt', split_ratio=0.7, generate_bigrams=True)
  assert train_dataset.vocab == valid_dataset.vocab
  VOCAB = train_dataset.vocab
  test_dataset = build_dataset('data/ratings_test.txt', predefined_vocab = VOCAB)
  \<close>
  The last call leaves \<open>generate_bigrams\<close> at its default, the parameter \<open>dflt\<close>.
\<close>

definition notebook_datasets ::
  "(corpus \<Rightarrow> corpus \<times> corpus) \<Rightarrow> bool \<Rightarrow> corpus \<Rightarrow> corpus
    \<Rightarrow> error + (dataset \<times> dataset \<times> dataset)" where
  "notebook_datasets split dflt ratings_train ratings_test =
     (let (train_dataset, valid_dataset) = build_dataset_split split True ratings_train
      in if vocab train_dataset \<noteq> vocab valid_dataset then Inl AssertionError
         else (let VOCAB = vocab train_dataset;
                   test_dataset = build_dataset_predefined VOCAB dflt ratings_test
               in Inr (train_dataset, valid_dataset, test_dataset)))"

section \<open>Inference on user text\<close>

text \<open>
  \<^verbatim>\<open>
  def predict_sentiment(model, sentence):
      model.eval()
      tokenized = generate_bigrams([tok for tok in tokenizer(sentence)])
      indexed = vectorize(VOCAB, tokenized, one_sentence=True)
      ...
  \<close>
  The state of the notebook that these two lines touch: the list objects and the global
  \<open>VOCAB\<close>. The tokenizer is external and is a parameter. The comprehension creates a new
  list object, \<open>generate_bigrams\<close> extends that object, \<open>vectorize\<close> reads it.
\<close>

record notebook =
  objects :: store
  VOCAB :: vocabulary


section \<open>Accuracy, training and evaluation\<close>

text \<open>
  Tensor elements are values of a type \<open>'a\<close>. Every operation of the tensor library
  that the code calls on them is a parameter: \<open>torch.sigmoid\<close>, \<open>torch.round\<close>, the
  elementwise \<open>==\<close>, the conversion \<open>.float()\<close> of a truth value, \<open>.sum()\<close> and the
  quotient of a tensor by a Python integer.
\<close>

record 'a torch_ops =
  t_sigmoid :: "'a \<Rightarrow> 'a"
  t_round :: "'a \<Rightarrow> 'a"
  t_eq :: "'a \<Rightarrow> 'a \<Rightarrow> bool"
  t_float :: "bool \<Rightarrow> 'a"
  t_sum :: "'a list \<Rightarrow> 'a"
  t_div :: "'a \<Rightarrow> nat \<Rightarrow> 'a"

text \<open>
  Elementwise operations on two one-dimensional tensors pair the elements; a tensor of
  one element is broadcast, any other difference in size is a \<open>RuntimeError\<close>.
\<close>

definition broadcast :: "'a list \<Rightarrow> 'b list \<Rightarrow> error + ('a \<times> 'b) list" where
  "broadcast xs ys =
     (if length xs = length ys then Inr (zip xs ys)
      else if length xs = 1 then Inr (map (\<lambda>y. (hd xs, y)) ys)
      else if length ys = 1 then Inr (map (\<lambda>x. (x, hd ys)) xs)
      else Inl RuntimeError)"

text \<open>
  \<^verbatim>\<open>
  def binary_accuracy(preds, y):
      rounded_preds = torch.round(torch.sigmoid(preds))
      correct = (rounded_preds == y).float() #convert into float for division
      acc = correct.sum() / len(correct)
      return acc
  \<close>
  The quotient of a tensor by an integer does not raise, whatever the integer.
\<close>

definition binary_accuracy ::
  "('a, 'z) torch_ops_scheme \<Rightarrow> 'a list \<Rightarrow> 'a list \<Rightarrow> error + 'a" where
  "binary_accuracy T preds y =
     (let rounded_preds = map (t_round T) (map (t_sigmoid T) preds)
      in case broadcast rounded_preds y of
           Inl e \<Rightarrow> Inl e
         | Inr pairs \<Rightarrow>
             (let correct = map (\<lambda>(p, l). t_float T (t_eq T p l)) pairs;
                  acc = t_div T (t_sum T correct) (length correct)
              in Inr acc))"

text \<open>
  What \<open>train\<close> and \<open>evaluate\<close> receive from outside: the model together with its
  optimizer is a state of type \<open>'m\<close>, a batch of sentences has type \<open>'x\<close>, a label type
  \<open>'l\<close>, a Python float type \<open>'f\<close>. \<open>model_train\<close> and \<open>model_eval\<close> switch the mode,
  \<open>forward\<close> is \<open>model(batch_sentence).squeeze(1)\<close>, \<open>label_float\<close> is \<open>.float()\<close> on
  the labels, \<open>criterion\<close> is the loss, \<open>optimize\<close> is \<open>zero_grad\<close>, \<open>backward\<close> and
  \<open>step\<close> together, \<open>item\<close> is \<open>.item()\<close>. The arithmetic of Python on the two
  accumulators is a parameter as well: \<open>py_zero\<close> is their initial \<open>0\<close>, \<open>py_add\<close> is
  \<open>+=\<close>, \<open>py_quot\<close> is \<open>/\<close> by an integer other than 0.
\<close>

record ('m, 'x, 'l, 'a, 'f) torch_env = "'a torch_ops" +
  model_train :: "'m \<Rightarrow> 'm"
  model_eval :: "'m \<Rightarrow> 'm"
  forward :: "'m \<Rightarrow> 'x \<Rightarrow> error + 'a list"
  label_float :: "'l \<Rightarrow> 'a"
  criterion :: "'a list \<Rightarrow> 'a list \<Rightarrow> error + 'a"
  optimize :: "'m \<Rightarrow> 'x \<Rightarrow> 'a list \<Rightarrow> 'm"
  item :: "'a \<Rightarrow> 'f"
  py_zero :: "'f"
  py_add :: "'f \<Rightarrow> 'f \<Rightarrow> 'f"
  py_quot :: "'f \<Rightarrow> nat \<Rightarrow> 'f"

text \<open>Python's \<open>/\<close> on an accumulator and \<open>len(iterator)\<close>: it raises on the divisor 0.\<close>

definition py_div ::
  "('m, 'x, 'l, 'a, 'f) torch_env \<Rightarrow> 'f \<Rightarrow> nat \<Rightarrow> error + 'f" where
  "py_div E a n = (if n = 0 then Inl ZeroDivisionError else Inr (py_quot E a n))"

text \<open>
  \<^verbatim>\<open>
  def train(model, iterator, optimizer, criterion, device):
      epoch_loss = 0
      epoch_acc = 0
      model.train()
      for batch_sentence, batch_label in iterator:
          ...
          optimizer.zero_grad()
          predictions = model(batch_sentence).squeeze(1)
          batch_label = batch_label.float()
          loss = criterion(predictions, batch_label)
          acc = binary_accuracy(predictions, batch_label)
          loss.backward()
          optimizer.step()
          epoch_loss += loss.item()
          epoch_acc += acc.item()
      return epoch_loss / len(iterator), epoch_acc / len(iterator)
  \<close>
  The iterator is the list of its batches and \<open>len(iterator)\<close> their number. The loop
  passes on the model and the two accumulators.
\<close>

fun train_loop ::
  "('m, 'x, 'l, 'a, 'f) torch_env \<Rightarrow> 'm \<times> 'f \<times> 'f \<Rightarrow> ('x \<times> 'l list) list
    \<Rightarrow> error + ('m \<times> 'f \<times> 'f)" where
  "train_loop E (model, epoch_loss, epoch_acc) [] = Inr (model, epoch_loss, epoch_acc)"
| "train_loop E (model, epoch_loss, epoch_acc) ((batch_sentence, batch_label) # rest) =
     (case forward E model batch_sentence of
        Inl e \<Rightarrow> Inl e
      | Inr predictions \<Rightarrow>
          (let batch_label = map (label_float E) batch_label
           in case criterion E predictions batch_label of
                Inl e \<Rightarrow> Inl e
              | Inr loss \<Rightarrow>
                  (case binary_accuracy E predictions batch_label of
                     Inl e \<Rightarrow> Inl e
                   | Inr acc \<Rightarrow>
                       train_loop E
                         (optimize E model batch_sentence batch_label,
                          py_add E epoch_loss (item E loss),
                          py_add E epoch_acc (item E acc)) rest)))"

definition train ::
  "('m, 'x, 'l, 'a, 'f) torch_env \<Rightarrow> 'm \<Rightarrow> ('x \<times> 'l list) list
    \<Rightarrow> error + (('f \<times> 'f) \<times> 'm)" where
  "train E model iterator =
     (case train_loop E (model_train E model, py_zero E, py_zero E) iterator of
        Inl e \<Rightarrow> Inl e
      | Inr (model, epoch_loss, epoch_acc) \<Rightarrow>
          (case py_div E epoch_loss (length iterator) of
             Inl e \<Rightarrow> Inl e
           | Inr l \<Rightarrow>
               (case py_div E epoch_acc (length iterator) of
                  Inl e \<Rightarrow> Inl e
                | Inr a \<Rightarrow> Inr ((l, a), model))))"

text \<open>
  \<open>evaluate\<close> is the same loop under \<open>torch.no_grad()\<close>, without the three optimizer
  calls, after \<open>model.eval()\<close>; it ends in the same \<open>return\<close>.
\<close>

fun evaluate_loop ::
  "('m, 'x, 'l, 'a, 'f) torch_env \<Rightarrow> 'm \<Rightarrow> 'f \<times> 'f \<Rightarrow> ('x \<times> 'l list) list
    \<Rightarrow> error + ('f \<times> 'f)" where
  "evaluate_loop E model (epoch_loss, epoch_acc) [] = Inr (epoch_loss, epoch_acc)"
| "evaluate_loop E model (epoch_loss, epoch_acc) ((batch_sentence, batch_label) # rest) =
     (case forward E model batch_sentence of
        Inl e \<Rightarrow> Inl e
      | Inr predictions \<Rightarrow>
          (let batch_label = map (label_float E) batch_label
           in case criterion E predictions batch_label of
                Inl e \<Rightarrow> Inl e
              | Inr loss \<Rightarrow>
                  (case binary_accuracy E predictions batch_label of
                     Inl e \<Rightarrow> Inl e
                   | Inr acc \<Rightarrow>
                       evaluate_loop E model
                         (py_add E epoch_loss (item E loss),
                          py_add E epoch_acc (item E acc)) rest)))"

definition evaluate ::
  "('m, 'x, 'l, 'a, 'f) torch_env \<Rightarrow> 'm \<Rightarrow> ('x \<times> 'l list) list
    \<Rightarrow> error + (('f \<times> 'f) \<times> 'm)" where
  "evaluate E model iterator =
     (let model = model_eval E model
      in case evaluate_loop E model (py_zero E, py_zero E) iterator of
           Inl e \<Rightarrow> Inl e
         | Inr (epoch_loss, epoch_acc) \<Rightarrow>
             (case py_div E epoch_loss (length iterator) of
                Inl e \<Rightarrow> Inl e
              | Inr l \<Rightarrow>
                  (case py_div E epoch_acc (length iterator) of
                     Inl e \<Rightarrow> Inl e
                   | Inr a \<Rightarrow> Inr ((l, a), model))))"

section \<open>The binary32 arithmetic of the tensor library\<close>



text \<open>
  The exponent of a non-negative rational in binary32: the largest \<open>e\<close> from 127 down to
  \<open>-126\<close> with \<open>2 ^ e \<le> q\<close>, and \<open>-126\<close> below the normal range.
\<close>

fun exp_search :: "rat \<Rightarrow> int \<Rightarrow> nat \<Rightarrow> int" where
  "exp_search q e 0 = e"
| "exp_search q e (Suc k) = (if 2 powi e \<le> q then e else exp_search q (e - 1) k)"











section \<open>Properties of bigram augmentation\<close>

lemma zip_star_pair: "zip_star [a, b] = map (\<lambda>(p, q). [p, q]) (zip a b)"
proof (induction a arbitrary: b)
  case Nil
  show ?case by (simp add: zip_star.simps)
next
  case (Cons p a)
  show ?case
  proof (cases b)
    case Nil
    then show ?thesis by (simp add: zip_star.simps)
  next
    case (Cons q b')
    have "zip_star [p # a, q # b'] = [p, q] # zip_star [a, b']"
      by (subst zip_star.simps) simp
    with Cons Cons.IH [of b'] show ?thesis by simp
  qed
qed

lemma slices_pair: "slices x = [x, drop 1 x]"
  by (simp add: slices_def upt_rec numeral_2_eq_2)

lemma foldl_append_each: "foldl (\<lambda>acc g. acc @ [f g]) acc gs = acc @ map f gs"
  by (induction gs arbitrary: acc) simp_all

lemma generate_bigrams_pairs:
  "generate_bigrams x = x @ map (\<lambda>(p, q). p @ '' '' @ q) (zip x (drop 1 x))"
proof -
  have "map (str_join '' '') (map (\<lambda>(p, q). [p, q]) (zip x (drop 1 x)))
        = map (\<lambda>(p, q). p @ '' '' @ q) (zip x (drop 1 x))"
    by (simp add: case_prod_unfold)
  then show ?thesis
    by (simp add: generate_bigrams_def slices_pair zip_star_pair foldl_append_each)
qed

lemma pairs_by_position:
  "map f (zip x (drop 1 x)) = map (\<lambda>i. f (x ! i, x ! Suc i)) [0..<length x - 1]"
  by (rule nth_equalityI) simp_all

lemma bigram_strings_by_position:
  "map (\<lambda>(p, q). p @ '' '' @ q) (zip x (drop 1 x))
   = map (\<lambda>i. x ! i @ '' '' @ x ! Suc i) [0..<length x - 1]"
  by (subst pairs_by_position) simp


text \<open>
  C1. For every token list \<open>x\<close>, \<open>generate_bigrams x\<close> is \<open>x\<close> followed by the strings
  \<open>x[i] + " " + x[i+1]\<close> for \<open>i = 0, ..., len(x) - 2\<close> in this order; nothing is
  de-duplicated, every position contributes its own entry.
\<close>

theorem generate_bigrams_spec:
  "generate_bigrams x = x @ map (\<lambda>i. x ! i @ '' '' @ x ! Suc i) [0..<length x - 1]"
  by (simp only: generate_bigrams_pairs bigram_strings_by_position)

text \<open>The bigram \<open>a b\<close> occurs twice in the input and twice in the output.\<close>

theorem generate_bigrams_spec_witness:
  "generate_bigrams [''a'', ''b'', ''a'', ''b'']
   = [''a'', ''b'', ''a'', ''b'', ''a b'', ''b a'', ''a b'']"
  using generate_bigrams_spec [of "[''a'', ''b'', ''a'', ''b'']"]
  by (simp add: upt_rec)

text \<open>
  C2. For every token list of at least two tokens, \<open>generate_bigrams\<close> keeps the list as
  a prefix and appends \<open>len(x) - 1\<close> entries, the bigrams of the adjacent tokens in
  order, so that the result has \<open>2 * len(x) - 1\<close> entries.
\<close>

theorem generate_bigrams_count:
  assumes "2 \<le> length x"
  shows "take (length x) (generate_bigrams x) = x
       \<and> drop (length x) (generate_bigrams x)
           = map (\<lambda>i. x ! i @ '' '' @ x ! Suc i) [0..<length x - 1]
       \<and> length (drop (length x) (generate_bigrams x)) + 1 = length x
       \<and> length (generate_bigrams x) + 1 = 2 * length x"
proof -
  have "generate_bigrams x = x @ map (\<lambda>i. x ! i @ '' '' @ x ! Suc i) [0..<length x - 1]"
    by (simp only: generate_bigrams_pairs bigram_strings_by_position)
  then have app: "drop (length x) (generate_bigrams x)
      = map (\<lambda>i. x ! i @ '' '' @ x ! Suc i) [0..<length x - 1]"
    by simp
  from assms have "take (length x) (generate_bigrams x) = x
      \<and> length (drop (length x) (generate_bigrams x)) + 1 = length x
      \<and> length (generate_bigrams x) + 1 = 2 * length x"
    by (auto simp add: generate_bigrams_pairs)
  with app show ?thesis
    by simp
qed

theorem generate_bigrams_count_witness:
  "2 \<le> length [''a'', ''b'', ''a'']
   \<and> take (length [''a'', ''b'', ''a'']) (generate_bigrams [''a'', ''b'', ''a''])
       = [''a'', ''b'', ''a'']
   \<and> drop (length [''a'', ''b'', ''a'']) (generate_bigrams [''a'', ''b'', ''a''])
       = [''a b'', ''b a'']
   \<and> length (drop (length [''a'', ''b'', ''a'']) (generate_bigrams [''a'', ''b'', ''a''])) + 1
       = length [''a'', ''b'', ''a'']
   \<and> length (generate_bigrams [''a'', ''b'', ''a'']) + 1 = 2 * length [''a'', ''b'', ''a'']"
  using generate_bigrams_count [of "[''a'', ''b'', ''a'']"] by (simp add: upt_rec)

text \<open>
  C3. On the empty token list and on every list of one token \<open>generate_bigrams\<close> returns
  its input, with no bigram appended. The function has no failing branch: it is a total
  function on token lists.
\<close>

theorem generate_bigrams_short:
  "generate_bigrams [] = [] \<and> generate_bigrams [t] = [t]"
  by (simp add: generate_bigrams_def slices_def zip_star.simps upt_rec)

theorem generate_bigrams_short_witness:
  "generate_bigrams [] = [] \<and> generate_bigrams [''film''] = [''film'']"
  using generate_bigrams_short [of "''film''"] by simp

text \<open>
  C4. The notebook's example: \<open>generate_bigrams(['This', 'film', 'is', 'terrible'])\<close>
  is the four tokens followed by \<open>This film\<close>, \<open>film is\<close> and \<open>is terrible\<close>.
\<close>

theorem generate_bigrams_example:
  "generate_bigrams [''This'', ''film'', ''is'', ''terrible'']
   = [''This'', ''film'', ''is'', ''terrible'', ''This film'', ''film is'', ''is terrible'']"
  by (simp add: generate_bigrams_def slices_def zip_star.simps upt_rec)

subsection \<open>In place\<close>






section \<open>Properties of the vocabulary and of vectorization\<close>

lemma build_vocab_preserves:
  assumes step: "\<And>v t. P v \<Longrightarrow> P (add_token v t)" and seed: "P seed_vocab"
  shows "P (build_vocab corpus)"
proof -
  have inner: "P (foldl add_token v ts)" if "P v" for v ts
    using that by (induction ts arbitrary: v) (simp_all add: step)
  have outer: "P (foldl (foldl add_token) v c)" if "P v" for v c
    using that by (induction c arbitrary: v) (simp_all add: inner)
  from outer [OF seed] show ?thesis
    by (simp only: build_vocab_def)
qed

lemma add_token_ids:
  "map snd v = [0..<length v] \<Longrightarrow> map snd (add_token v t) = [0..<length (add_token v t)]"
  by (simp add: add_token_def split: option.splits)

lemma add_token_distinct:
  "distinct (map fst v) \<Longrightarrow> distinct (map fst (add_token v t))"
  by (auto simp: add_token_def map_of_eq_None_iff split: option.splits)

lemma add_token_keeps:
  "map_of v k = Some i \<Longrightarrow> map_of (add_token v t) k = Some i"
  by (simp add: add_token_def map_add_Some_iff split: option.splits)

lemma build_vocab_ids:
  "map snd (build_vocab corpus) = [0..<length (build_vocab corpus)]"
  by (rule build_vocab_preserves [where P = "\<lambda>v. map snd v = [0..<length v]"])
    (simp_all add: add_token_ids seed_vocab_def unk_id_def pad_id_def)

lemma build_vocab_distinct: "distinct (map fst (build_vocab corpus))"
  by (rule build_vocab_preserves [where P = "\<lambda>v. distinct (map fst v)"])
    (simp_all add: add_token_distinct seed_vocab_def unk_token_def pad_token_def)

lemma build_vocab_unk: "map_of (build_vocab corpus) unk_token = Some unk_id"
  by (rule build_vocab_preserves [where P = "\<lambda>v. map_of v unk_token = Some unk_id"])
    (simp_all add: add_token_keeps seed_vocab_def)

lemma build_vocab_pad: "map_of (build_vocab corpus) pad_token = Some pad_id"
  by (rule build_vocab_preserves [where P = "\<lambda>v. map_of v pad_token = Some pad_id"])
    (simp_all add: add_token_keeps seed_vocab_def unk_token_def pad_token_def)

lemma notebook_datasets_vocab:
  "\<exists>tr va te. notebook_datasets split dflt d1 d2 = Inr (tr, va, te)
     \<and> vocab tr = build_vocab (map fst (augment True d1))
     \<and> vocab va = vocab tr \<and> vocab te = vocab tr"
proof -
  obtain a b where "split (augment True d1) = (a, b)"
    by force
  then show ?thesis
    by (simp add: notebook_datasets_def build_dataset_split_def build_dataset_predefined_def
        make_dataset_def Let_def)
qed

text \<open>
  C5. A token that the built vocabulary does not hold is vectorized to the reserved
  unknown id, the id under which the vocabulary holds \<open><unk>\<close>; vectorization gives one
  id per token and has no failing branch.
\<close>

theorem vectorize_unknown:
  assumes "map_of (build_vocab corpus) t = None" and "i < length tokens" and "tokens ! i = t"
  shows "length (vectorize (build_vocab corpus) tokens) = length tokens
       \<and> vectorize (build_vocab corpus) tokens ! i = unk_id
       \<and> map_of (build_vocab corpus) unk_token = Some unk_id"
  using assms by (simp add: vectorize_def build_vocab_unk)

theorem vectorize_unknown_witness:
  "map_of (build_vocab [[''a'']]) ''b'' = None
   \<and> 1 < length [''a'', ''b''] \<and> [''a'', ''b''] ! 1 = ''b''
   \<and> length (vectorize (build_vocab [[''a'']]) [''a'', ''b'']) = length [''a'', ''b'']
   \<and> vectorize (build_vocab [[''a'']]) [''a'', ''b''] ! 1 = unk_id
   \<and> map_of (build_vocab [[''a'']]) unk_token = Some unk_id"
proof -
  have h: "map_of (build_vocab [[''a'']]) ''b'' = None"
    by (simp add: build_vocab_def add_token_def seed_vocab_def unk_token_def pad_token_def)
  from vectorize_unknown [OF h, of 1 "[''a'', ''b'']"] h show ?thesis
    by simp
qed

text \<open>
  C6. In every vocabulary that the builder produces the ids are \<open>0, 1, ..., n - 1\<close> in
  the order of insertion, no id and no token occurs twice, and \<open><unk>\<close> and \<open><pad>\<close>
  are present at their reserved ids. The datasets of the notebook are built without
  failing the assertion, and the training, validation and test dataset carry the same
  vocabulary, the one built from the training file.
\<close>

theorem build_vocab_invariant:
  "map snd (build_vocab corpus) = [0..<length (build_vocab corpus)]
   \<and> distinct (map snd (build_vocab corpus))
   \<and> distinct (map fst (build_vocab corpus))
   \<and> map_of (build_vocab corpus) unk_token = Some unk_id
   \<and> map_of (build_vocab corpus) pad_token = Some pad_id
   \<and> (\<exists>tr va te. notebook_datasets split dflt ratings_train ratings_test = Inr (tr, va, te)
        \<and> vocab tr = build_vocab (map fst (augment True ratings_train))
        \<and> vocab va = vocab tr \<and> vocab te = vocab tr)"
proof -
  have "distinct (map snd (build_vocab corpus))"
    by (subst build_vocab_ids) simp
  with build_vocab_ids build_vocab_distinct build_vocab_unk build_vocab_pad
    notebook_datasets_vocab
  show ?thesis by blast
qed

theorem build_vocab_invariant_witness:
  "build_vocab [[''a'', ''b'', ''a'']]
     = [(''<unk>'', 0), (''<pad>'', 1), (''a'', 2), (''b'', 3)]
   \<and> map snd (build_vocab [[''a'', ''b'', ''a'']])
       = [0..<length (build_vocab [[''a'', ''b'', ''a'']])]
   \<and> (\<exists>tr va te. notebook_datasets (\<lambda>d. (d, [])) False [([''a'', ''b''], True)] [] = Inr (tr, va, te)
        \<and> vocab tr = build_vocab (map fst (augment True [([''a'', ''b''], True)]))
        \<and> vocab va = vocab tr \<and> vocab te = vocab tr)"
proof -
  have "build_vocab [[''a'', ''b'', ''a'']]
     = [(''<unk>'', 0), (''<pad>'', 1), (''a'', 2), (''b'', 3)]"
    by (simp add: build_vocab_def add_token_def seed_vocab_def unk_token_def pad_token_def
        unk_id_def pad_id_def)
  with build_vocab_invariant
    [of "[[''a'', ''b'', ''a'']]" "\<lambda>d. (d, [])" False "[([''a'', ''b''], True)]" "[]"]
  show ?thesis by blast
qed



section \<open>Properties of training and evaluation\<close>

text \<open>
  C9. \<open>train\<close> and \<open>evaluate\<close> divide by \<open>len(iterator)\<close> without a guard: on an
  iterator of no batch each raises \<open>ZeroDivisionError\<close> and returns no value.
\<close>

theorem train_evaluate_zero_batches:
  "train E model [] = Inl ZeroDivisionError \<and> evaluate E model [] = Inl ZeroDivisionError"
  by (simp add: train_def evaluate_def py_div_def)

section \<open>Properties of binary32 rounding\<close>


lemma exp_search_lower: "e - int k \<le> exp_search q e k"
proof (induction k arbitrary: e)
  case 0
  show ?case by simp
next
  case (Suc k)
  from Suc [of "e - 1"] show ?case by simp
qed

















section \<open>Properties of the accuracy\<close>











end
